theory Spec2Isabelle
  imports Main "HOL-Library.Stream"
begin

section \<open>Seeding sample orders: a model of \<open>seed_sample_data_for_testing.py\<close>\<close>

text \<open>
  The script fills an order-tracking database with ten customers and twenty orders, four
  for each lifecycle state. Its logic is timestamp arithmetic and random selection inside
  \<open>create_sample_data\<close>; this theory embeds that function's order loop, the nested helper
  \<open>create_timestamps_for_status\<close> and the top-level exception handler.
\<close>

subsection \<open>Time\<close>

text \<open>
  A Python \<open>datetime\<close> has microsecond resolution, and all arithmetic of the script stays
  within one \<open>tzinfo\<close>. A \<open>datetime\<close> is modelled as the number of microseconds since the
  midnight that starts day 0 of that clock, so the calendar day is \<open>t div usec_per_day\<close>
  and the time of day is \<open>t mod usec_per_day\<close>. The year range of \<open>datetime\<close> (1 to 9999)
  is not modelled.
\<close>

type_synonym datetime = int

definition usec_per_minute :: int where
  "usec_per_minute = 60000000"

definition usec_per_hour :: int where
  "usec_per_hour = 3600000000"

definition usec_per_day :: int where
  "usec_per_day = 86400000000"

text \<open>\<open>timedelta(days=d, hours=h, minutes=m)\<close>, in microseconds.\<close>

definition timedelta :: "int \<Rightarrow> int \<Rightarrow> int \<Rightarrow> int" where
  "timedelta d h m = d * usec_per_day + h * usec_per_hour + m * usec_per_minute"

text \<open>\<open>t.replace(hour=h, minute=m, second=s, microsecond=us)\<close>: the date is kept.\<close>

definition replace_time :: "datetime \<Rightarrow> int \<Rightarrow> int \<Rightarrow> int \<Rightarrow> int \<Rightarrow> datetime" where
  "replace_time t h m s us =
     (t div usec_per_day) * usec_per_day + h * usec_per_hour + m * usec_per_minute
       + s * 1000000 + us"

subsection \<open>Random choices and exceptions\<close>

text \<open>
  The module \<open>random\<close> is a hidden generator state. It is modelled as a stream of raw
  draws that every call consumes from the front; \<open>randint a b\<close> maps a draw into the closed
  range \<open>[a, b]\<close>, \<open>choice\<close> into the indices of the sequence. \<open>random.choice\<close> raises
  \<open>IndexError\<close> on an empty sequence.
\<close>

type_synonym rng = "nat stream"

datatype exn =
    IndexError
  | UnboundLocalError
  | KeyError
  | TypeError
  | DatabaseError string

definition randint :: "int \<Rightarrow> int \<Rightarrow> rng \<Rightarrow> int \<times> rng" where
  "randint a b g = (a + int (shd g) mod (b - a + 1), stl g)"

definition choice :: "'a list \<Rightarrow> rng \<Rightarrow> exn + ('a \<times> rng)" where
  "choice xs g =
     (if xs = [] then Inl IndexError else Inr (xs ! (shd g mod length xs), stl g))"

subsection \<open>Timestamps for a status\<close>

text \<open>
  The helper returns the tuple \<open>(created, started, completed, cancelled)\<close>. A status that
  matches none of the five branches leaves the local \<open>created\<close> unassigned, and the
  \<open>return\<close> raises \<open>UnboundLocalError\<close>. The reference instant \<open>now\<close> is the closure
  variable set once at the start of \<open>create_sample_data\<close>.
\<close>

type_synonym timestamps =
  "datetime \<times> datetime option \<times> datetime option \<times> datetime option"

definition create_timestamps_for_status ::
  "datetime \<Rightarrow> string \<Rightarrow> rng \<Rightarrow> exn + (timestamps \<times> rng)" where
  "create_timestamps_for_status now st g =
     (if st = ''created'' then
        (case randint 1 8 g of (r, g1) \<Rightarrow>
           Inr ((now - timedelta 0 0 r, None, None, None), g1))
      else if st = ''in_progress'' then
        (case randint 11 120 g of (r, g1) \<Rightarrow>
           (let created = now - timedelta 0 0 r;
                started = created
            in Inr ((created, Some started, None, None), g1)))
      else if st = ''overdue'' then
        (let yesterday_815am = replace_time (now - timedelta 1 0 0) 8 15 0 0;
             created = yesterday_815am;
             started = created
         in Inr ((created, Some started, None, None), g))
      else if st = ''completed'' then
        (case randint 1 30 g of (r1, g1) \<Rightarrow>
         case randint 2 8 g1 of (r2, g2) \<Rightarrow>
           (let created = now - timedelta r1 0 0;
                started = created + timedelta 0 0 10;
                completed = started + timedelta 0 r2 0
            in Inr ((created, Some started, Some completed, None), g2)))
      else if st = ''cancelled'' then
        (case randint 1 20 g of (r1, g1) \<Rightarrow>
         case randint 30 240 g1 of (r2, g2) \<Rightarrow>
           (let created = now - timedelta r1 0 0;
                started = created + timedelta 0 0 10;
                cancelled = started + timedelta 0 0 r2
            in Inr ((created, Some started, None, Some cancelled), g2)))
      else Inl UnboundLocalError)"

text \<open>The static list of statuses the loop runs over: four of each.\<close>

definition order_statuses :: "string list" where
  "order_statuses =
     [''created'', ''created'', ''created'', ''created'',
      ''in_progress'', ''in_progress'', ''in_progress'', ''in_progress'',
      ''overdue'', ''overdue'', ''overdue'', ''overdue'',
      ''completed'', ''completed'', ''completed'', ''completed'',
      ''cancelled'', ''cancelled'', ''cancelled'', ''cancelled'']"

subsection \<open>Entities\<close>

text \<open>
  The ORM models live in \<open>tracker.models\<close>, outside this script. A customer carries the
  fields the script reads or writes; an order is the keyword dictionary \<open>order_data\<close> the
  loop passes to \<open>Order.objects.create\<close>, where an absent key is \<open>None\<close>. The customer
  of an order is the position of the chosen object in the list \<open>customers\<close>, which is its
  identity for the in-place updates; the keys \<open>customer\<close> and \<open>type\<close> are the fields
  \<open>customer_ref\<close> and \<open>order_type\<close>, and \<open>item.name\<close> and \<open>item.brand.name\<close> of an
  inventory item are \<open>item_label\<close> and \<open>item_brand\<close>. The constant key \<open>branch\<close> is
  left out.
\<close>

record customer =
  full_name :: string
  phone :: string
  email :: string
  customer_type :: string
  registration_date :: datetime
  address :: string
  total_visits :: "int option"
  last_visit :: "datetime option"

record inventory_item =
  item_label :: string
  item_brand :: string

record order_data =
  customer_ref :: nat
  vehicle :: "nat option"
  order_type :: string
  status :: string
  priority :: string
  created_at :: datetime
  estimated_duration :: int
  assigned_to :: bool
  started_at :: "datetime option"
  completed_at :: "datetime option"
  completion_date :: "datetime option"
  cancelled_at :: "datetime option"
  cancellation_reason :: "string option"
  description :: "string option"
  item_name :: "string option"
  brand :: "string option"
  quantity :: "int option"
  tire_type :: "string option"

text \<open>
  What the database answers: the vehicles of each customer, the inventory items found or
  created before the loop, and whether a call of the ORM raises (\<open>None\<close>: it succeeds).
  \<open>setup_error\<close> stands for an exception of the \<open>get_or_create\<close> calls that precede the
  order loop, \<open>summary_error\<close> for one of the counting queries of the summary after it.
\<close>

record env =
  vehicles_of :: "nat \<Rightarrow> nat list"
  inventory_items :: "inventory_item list"
  setup_error :: "exn option"
  summary_error :: "exn option"
  create_error :: "order_data \<Rightarrow> exn option"
  save_error :: "nat \<Rightarrow> exn option"

datatype event =
    Print_order_error exn
  | Print_seeding_error exn
  | Print_traceback

text \<open>
  The state the loop threads: the generator, the customer objects in memory, their rows
  in the database, the dictionary \<open>orders_by_status\<close>, every dictionary handed to
  \<open>Order.objects.create\<close> so far, and the error lines printed by the handlers (the
  progress lines are not modelled).
\<close>

record seed_state =
  gen :: rng
  customers :: "customer list"
  customer_rows :: "customer list"
  orders_by_status :: "string \<rightharpoonup> order_data list"
  submitted :: "order_data list"
  printed :: "event list"

definition bind_exn :: "exn + 'a \<Rightarrow> ('a \<Rightarrow> exn + 'b) \<Rightarrow> exn + 'b" where
  "bind_exn m f = (case m of Inl e \<Rightarrow> Inl e | Inr x \<Rightarrow> f x)"

definition service_descriptions :: "string list" where
  "service_descriptions =
     [''Oil change and filter replacement'',
      ''Brake pad replacement and inspection'',
      ''Tire rotation and balancing'',
      ''Engine tune-up and diagnostics'',
      ''Transmission fluid service'']"

definition cancellation_reasons :: "string list" where
  "cancellation_reasons =
     [''Customer request'', ''Parts unavailable'', ''Weather conditions'',
      ''Customer no-show'']"

subsection \<open>One iteration of the order loop\<close>

text \<open>
  The loop body builds the dictionary \<open>order_data\<close> in four steps, all of them outside
  its \<open>try\<close>. First the random selections: the customer, one of the customer's
  vehicles when there is any, the order type and the priority.
\<close>

definition select_order_inputs ::
  "env \<Rightarrow> customer list \<Rightarrow> rng \<Rightarrow> exn + ((nat \<times> nat option \<times> string \<times> string) \<times> rng)" where
  "select_order_inputs en cs g =
     bind_exn (choice [0..<length cs] g) (\<lambda>(c, g1).
     bind_exn (if vehicles_of en c \<noteq> []
               then bind_exn (choice (vehicles_of en c) g1) (\<lambda>(v, g'). Inr (Some v, g'))
               else Inr (None, g1)) (\<lambda>(v, g2).
     bind_exn (choice [''service'', ''sales'', ''service''] g2) (\<lambda>(ot, g3).
     bind_exn (choice [''low'', ''medium'', ''high'', ''urgent''] g3) (\<lambda>(pr, g4).
       Inr ((c, v, ot, pr), g4)))))"

text \<open>The dictionary literal, with its two draws in the order of its keys.\<close>

definition initial_order_data ::
  "nat \<Rightarrow> nat option \<Rightarrow> string \<Rightarrow> string \<Rightarrow> string \<Rightarrow> datetime \<Rightarrow> rng
     \<Rightarrow> exn + (order_data \<times> rng)" where
  "initial_order_data c v ot st pr created g =
     (case randint 60 480 g of (dur, g1) \<Rightarrow>
      bind_exn (choice [True, False] g1) (\<lambda>(asg, g2).
        Inr (\<lparr>customer_ref = c, vehicle = v, order_type = ot, status = st,
               priority = pr, created_at = created, estimated_duration = dur,
               assigned_to = asg, started_at = None, completed_at = None,
               completion_date = None, cancelled_at = None,
               cancellation_reason = None, description = None, item_name = None,
               brand = None, quantity = None, tire_type = None\<rparr>, g2)))"

text \<open>
  ``Set timestamps based on status''. A \<open>datetime\<close> is always true in a condition, so
  \<open>if started_at:\<close> tests for \<open>None\<close>.
\<close>

definition set_timestamps ::
  "order_data \<Rightarrow> datetime option \<Rightarrow> datetime option \<Rightarrow> datetime option \<Rightarrow> rng
     \<Rightarrow> exn + (order_data \<times> rng)" where
  "set_timestamps od0 started completed cancelled g =
     (let od1 = (case started of Some t \<Rightarrow> od0\<lparr>started_at := Some t\<rparr> | None \<Rightarrow> od0);
          od2 = (case completed of
                   Some t \<Rightarrow> od1\<lparr>completed_at := Some t, completion_date := Some t\<rparr>
                 | None \<Rightarrow> od1)
      in case cancelled of
           Some t \<Rightarrow>
             bind_exn (choice cancellation_reasons g) (\<lambda>(r, g').
               Inr (od2\<lparr>cancelled_at := Some t, cancellation_reason := Some r\<rparr>, g'))
         | None \<Rightarrow> Inr (od2, g))"

text \<open>``Type-specific data''.\<close>

definition set_type_specific_data ::
  "env \<Rightarrow> order_data \<Rightarrow> rng \<Rightarrow> exn + (order_data \<times> rng)" where
  "set_type_specific_data en od g =
     (if order_type od = ''service'' then
        bind_exn (choice service_descriptions g) (\<lambda>(d, g1).
          Inr (od\<lparr>description := Some d\<rparr>, g1))
      else if order_type od = ''sales'' then
        bind_exn (choice (inventory_items en) g) (\<lambda>(item, g1).
          case randint 1 4 g1 of (q, g2) \<Rightarrow>
            Inr (od\<lparr>item_name := Some (item_label item),
                      brand := Some (item_brand item),
                      quantity := Some q,
                      tire_type := Some ''New''\<rparr>, g2))
      else Inr (od, g))"

definition build_order_data ::
  "env \<Rightarrow> datetime \<Rightarrow> customer list \<Rightarrow> string \<Rightarrow> rng \<Rightarrow> exn + (order_data \<times> rng)" where
  "build_order_data en now cs st g =
     bind_exn (select_order_inputs en cs g) (\<lambda>((c, v, ot, pr), g1).
     bind_exn (create_timestamps_for_status now st g1)
       (\<lambda>((created, started, completed, cancelled), g2).
     bind_exn (initial_order_data c v ot st pr created g2) (\<lambda>(od0, g3).
     bind_exn (set_timestamps od0 started completed cancelled g3) (\<lambda>(od1, g4).
       set_type_specific_data en od1 g4))))"

text \<open>
  The visit tracking of the \<open>try\<close> block: \<open>(customer.total_visits or 0) + 1\<close> and
  \<open>customer.last_visit = created_at\<close>, on the object in memory.
\<close>

definition track_visit :: "customer \<Rightarrow> datetime \<Rightarrow> customer" where
  "track_visit c t =
     c\<lparr>total_visits := Some ((case total_visits c of None \<Rightarrow> 0 | Some n \<Rightarrow> n) + 1),
       last_visit := Some t\<rparr>"

text \<open>
  \<open>customer.save(update_fields=['total_visits', 'last_visit'])\<close>: the row takes the two
  named columns from the object and keeps every other column.
\<close>

definition save_update_fields :: "customer \<Rightarrow> customer \<Rightarrow> customer" where
  "save_update_fields obj row =
     row\<lparr>total_visits := total_visits obj, last_visit := last_visit obj\<rparr>"

text \<open>
  The \<open>try\<close> block of the loop body with its handler \<open>except Exception\<close>, which prints
  the error and lets the loop go on. An exception of \<open>Order.objects.create\<close> leaves the
  state as it was; one of \<open>customer.save\<close> comes after the object in memory was changed.
  The progress line that ends the block is not modelled.
\<close>

definition try_create_order :: "env \<Rightarrow> order_data \<Rightarrow> seed_state \<Rightarrow> seed_state" where
  "try_create_order en od s =
     (case create_error en od of
        Some e \<Rightarrow> s\<lparr>printed := printed s @ [Print_order_error e]\<rparr>
      | None \<Rightarrow>
          (case orders_by_status s (status od) of
             None \<Rightarrow> s\<lparr>printed := printed s @ [Print_order_error KeyError]\<rparr>
           | Some os \<Rightarrow>
               (let i = customer_ref od;
                    s1 = s\<lparr>orders_by_status :=
                             (orders_by_status s)(status od \<mapsto> os @ [od])\<rparr>;
                    obj = track_visit (customers s1 ! i) (created_at od);
                    s2 = s1\<lparr>customers := (customers s1)[i := obj]\<rparr>
                in case save_error en i of
                     Some e \<Rightarrow> s2\<lparr>printed := printed s2 @ [Print_order_error e]\<rparr>
                   | None \<Rightarrow>
                       s2\<lparr>customer_rows :=
                            (customer_rows s2)
                              [i := save_update_fields obj (customer_rows s2 ! i)]\<rparr>)))"

definition order_iteration ::
  "env \<Rightarrow> datetime \<Rightarrow> string \<Rightarrow> seed_state \<Rightarrow> exn + seed_state" where
  "order_iteration en now st s =
     bind_exn (build_order_data en now (customers s) st (gen s)) (\<lambda>(od, g').
       Inr (try_create_order en od (s\<lparr>gen := g', submitted := submitted s @ [od]\<rparr>)))"

subsection \<open>The loop, the function and the script\<close>

text \<open>
  An exception that leaves an iteration ends the loop; the state reached so far is kept
  beside it.
\<close>

fun create_orders ::
  "env \<Rightarrow> datetime \<Rightarrow> string list \<Rightarrow> seed_state \<Rightarrow> exn option \<times> seed_state" where
  "create_orders en now [] s = (None, s)"
| "create_orders en now (st # sts) s =
     (case order_iteration en now st s of
        Inl e \<Rightarrow> (Some e, s)
      | Inr s' \<Rightarrow> create_orders en now sts s')"

definition initial_state :: "customer list \<Rightarrow> rng \<Rightarrow> seed_state" where
  "initial_state cs g =
     \<lparr>gen = g, customers = cs, customer_rows = cs,
      orders_by_status =
        [''created'' \<mapsto> [], ''in_progress'' \<mapsto> [], ''overdue'' \<mapsto> [],
         ''completed'' \<mapsto> [], ''cancelled'' \<mapsto> []],
      submitted = [], printed = []\<rparr>"

text \<open>
  The summary after the loop changes nothing, but it can raise: its queries can, and the
  line of the visit tracking formats \<open>customer.total_visits\<close> with \<open>:2d\<close>, which is a
  \<open>TypeError\<close> for \<open>None\<close>.
\<close>

definition print_summary :: "env \<Rightarrow> seed_state \<Rightarrow> exn option" where
  "print_summary en s =
     (case summary_error en of
        Some e \<Rightarrow> Some e
      | None \<Rightarrow>
          if \<exists>c\<in>set (customers s). total_visits c = None then Some TypeError else None)"

text \<open>
  \<open>create_sample_data\<close> from the order loop on; \<open>cs\<close> is the list \<open>customers\<close> built
  before it and \<open>now\<close> the value of \<open>timezone.now()\<close>.
\<close>

definition create_sample_data ::
  "env \<Rightarrow> datetime \<Rightarrow> customer list \<Rightarrow> rng \<Rightarrow> exn option \<times> seed_state" where
  "create_sample_data en now cs g =
     (case setup_error en of
        Some e \<Rightarrow> (Some e, initial_state cs g)
      | None \<Rightarrow>
          (case create_orders en now order_statuses (initial_state cs g) of
             (Some e, s) \<Rightarrow> (Some e, s)
           | (None, s) \<Rightarrow> (print_summary en s, s)))"



subsection \<open>The status engine\<close>

text \<open>
  Modelled from the spec: the working-hours duration of the Status Engine, which the
  middleware computes and this script only anticipates in its comments. It counts the
  time of the interval from \<open>s\<close> to \<open>e\<close> that falls within the window from 08:00 to 17:00
  of each calendar day the interval spans; weekends and holidays are not treated apart.
  The measure is in microseconds, so nine hours are \<open>9 * usec_per_hour\<close>.
\<close>

definition window_overlap :: "int \<Rightarrow> datetime \<Rightarrow> datetime \<Rightarrow> int" where
  "window_overlap d s e =
     max 0 (min e (d * usec_per_day + 17 * usec_per_hour)
            - max s (d * usec_per_day + 8 * usec_per_hour))"

definition working_duration :: "datetime \<Rightarrow> datetime \<Rightarrow> int" where
  "working_duration s e =
     sum_list (map (\<lambda>d. window_overlap d s e) [s div usec_per_day..e div usec_per_day])"

text \<open>
  Modelled from the spec: the operation \<open>advance(order, now)\<close> of the Status Engine,
  which is not part of this script. It reads \<open>status\<close>, \<open>created_at\<close> and \<open>started_at\<close>
  of the order. A \<open>created\<close> order of age ten minutes or more moves to \<open>in_progress\<close>
  with \<open>started_at = created_at\<close>; an \<open>in_progress\<close> order with nine or more working
  hours since \<open>started_at\<close> moves to \<open>overdue\<close>; every other status has no transition,
  whatever \<open>now\<close> is. An \<open>in_progress\<close> order without \<open>started_at\<close> is a
  \<open>ConsistencyError\<close>, a clock at or before \<open>created_at\<close> an \<open>InvalidClockError\<close>;
  the spec does not order the two checks, the clock is checked first here.
\<close>

datatype engine_error = ConsistencyError | InvalidClockError

record transition =
  new_status :: string
  new_started_at :: "datetime option"

definition advance :: "order_data \<Rightarrow> datetime \<Rightarrow> engine_error + transition option" where
  "advance od now =
     (if status od = ''created'' then
        (if now \<le> created_at od then Inl InvalidClockError
         else if 10 * usec_per_minute \<le> now - created_at od then
           Inr (Some \<lparr>new_status = ''in_progress'',
                      new_started_at = Some (created_at od)\<rparr>)
         else Inr None)
      else if status od = ''in_progress'' then
        (if now \<le> created_at od then Inl InvalidClockError
         else case started_at od of
                None \<Rightarrow> Inl ConsistencyError
              | Some t \<Rightarrow>
                  if 9 * usec_per_hour \<le> working_duration t now then
                    Inr (Some \<lparr>new_status = ''overdue'', new_started_at = None\<rparr>)
                  else Inr None)
      else Inr None)"

text \<open>
  Modelled from the spec: what the caller persists for a transition descriptor, the new
  status and, when the descriptor carries one, \<open>started_at\<close>.
\<close>

definition apply_transition :: "order_data \<Rightarrow> transition \<Rightarrow> order_data" where
  "apply_transition od tr =
     od\<lparr>status := new_status tr,
        started_at := (case new_started_at tr of
                         None \<Rightarrow> started_at od
                       | Some t \<Rightarrow> Some t)\<rparr>"

subsection \<open>Sample inputs\<close>

text \<open>A customer with one earlier visit, a database that answers every call, one
  whose \<open>Order.objects.create\<close> always raises, one whose \<open>customer.save\<close> always
  raises, and one that fails before the loop.\<close>

definition sample_customer :: customer where
  "sample_customer =
     \<lparr>full_name = ''John Smith'', phone = ''0701234567'',
      email = ''john.smith@email.com'', customer_type = ''personal'',
      registration_date = 0, address = ''Plot 100, Kampala'',
      total_visits = Some 1, last_visit = Some (5 * usec_per_day)\<rparr>"

definition sample_env :: env where
  "sample_env =
     \<lparr>vehicles_of = (\<lambda>c. [7]),
      inventory_items = [\<lparr>item_label = ''All Season 195/65R15'', item_brand = ''Michelin''\<rparr>],
      setup_error = None,
      summary_error = None,
      create_error = (\<lambda>od. None),
      save_error = (\<lambda>i. None)\<rparr>"




text \<open>A run at 07:00 of day 1 with one customer and a generator whose draws are all 0,
  its final state, and the order it builds for a status.\<close>

definition sample_now :: datetime where
  "sample_now = timedelta 1 7 0"

definition sample_run :: seed_state where
  "sample_run = snd (create_sample_data sample_env sample_now [sample_customer] (sconst 0))"

definition sample_order :: "string \<Rightarrow> order_data" where
  "sample_order st =
     fst (projr (build_order_data sample_env sample_now [sample_customer] st (sconst 0)))"

section \<open>Basic facts\<close>

lemmas time_defs = timedelta_def usec_per_day_def usec_per_hour_def usec_per_minute_def replace_time_def

lemma bind_exn_simps [simp]: "bind_exn (Inl e) f = Inl e" "bind_exn (Inr x) f = f x"
  by (simp_all add: bind_exn_def)

lemma bind_exn_Inr_iff: "bind_exn m f = Inr y \<longleftrightarrow> (\<exists>x. m = Inr x \<and> f x = Inr y)"
  by (cases m) simp_all

lemma randint_range:
  assumes "a \<le> b"
  shows "a \<le> fst (randint a b g) \<and> fst (randint a b g) \<le> b"
proof -
  have pos: "0 < b - a + 1" using assms by simp
  have "0 \<le> int (shd g) mod (b - a + 1)" by (rule pos_mod_sign [OF pos])
  moreover have "int (shd g) mod (b - a + 1) < b - a + 1" by (rule pos_mod_bound [OF pos])
  ultimately show ?thesis by (simp add: randint_def)
qed

lemma randint_cases:
  assumes "a \<le> b" "randint a b g = (r, g')"
  shows "a \<le> r \<and> r \<le> b"
  using randint_range [OF assms(1), of g] assms(2) by simp

lemma choice_Inr: "xs \<noteq> [] \<Longrightarrow> choice xs g = Inr (xs ! (shd g mod length xs), stl g)"
  by (simp add: choice_def)

lemma choice_mem: "choice xs g = Inr (x, g') \<Longrightarrow> x \<in> set xs"
  by (auto simp: choice_def split: if_splits)

lemma timestamps_total:
  "st \<in> set order_statuses \<Longrightarrow> \<exists>ts g'. create_timestamps_for_status now st g = Inr (ts, g')"
  by (auto simp: order_statuses_def create_timestamps_for_status_def Let_def split: prod.splits)

lemma select_order_inputs_fields:
  "select_order_inputs en cs g = Inr ((c, v, ot, pr), g') \<Longrightarrow> c < length cs"
  by (auto simp: select_order_inputs_def bind_exn_Inr_iff dest!: choice_mem split: if_splits)

lemma initial_order_data_fields:
  "initial_order_data c v ot st pr created g = Inr (od, g') \<Longrightarrow>
   status od = st \<and> customer_ref od = c \<and> created_at od = created \<and> order_type od = ot \<and>
   started_at od = None \<and> completed_at od = None \<and> cancelled_at od = None"
  by (auto simp: initial_order_data_def bind_exn_Inr_iff randint_def)

lemma set_timestamps_fields:
  "set_timestamps od0 started completed cancelled g = Inr (od, g') \<Longrightarrow>
   started_at od0 = None \<Longrightarrow> completed_at od0 = None \<Longrightarrow> cancelled_at od0 = None \<Longrightarrow>
   status od = status od0 \<and> customer_ref od = customer_ref od0 \<and> created_at od = created_at od0 \<and>
   started_at od = started \<and> completed_at od = completed \<and> cancelled_at od = cancelled"
  by (auto simp: set_timestamps_def bind_exn_Inr_iff Let_def split: option.splits)

lemma set_type_specific_data_fields:
  "set_type_specific_data en od0 g = Inr (od, g') \<Longrightarrow>
   status od = status od0 \<and> customer_ref od = customer_ref od0 \<and> created_at od = created_at od0 \<and>
   started_at od = started_at od0 \<and> completed_at od = completed_at od0 \<and>
   cancelled_at od = cancelled_at od0"
  by (auto simp: set_type_specific_data_def bind_exn_Inr_iff randint_def split: if_splits)

lemma build_order_data_fields:
  assumes "build_order_data en now cs st g = Inr (od, g')"
  shows "status od = st \<and> customer_ref od < length cs \<and>
         (\<exists>g4 g5. create_timestamps_for_status now st g4 =
            Inr ((created_at od, started_at od, completed_at od, cancelled_at od), g5))"
proof -
  from assms obtain c v ot pr g1 created started completed cancelled g2 od0 g3 od1 g4 where
    sel: "select_order_inputs en cs g = Inr ((c, v, ot, pr), g1)" and
    ts: "create_timestamps_for_status now st g1 = Inr ((created, started, completed, cancelled), g2)" and
    ini: "initial_order_data c v ot st pr created g2 = Inr (od0, g3)" and
    stt: "set_timestamps od0 started completed cancelled g3 = Inr (od1, g4)" and
    tsd: "set_type_specific_data en od1 g4 = Inr (od, g')"
    by (auto simp: build_order_data_def bind_exn_Inr_iff)
  note a = initial_order_data_fields [OF ini]
  have b: "status od1 = status od0 \<and> customer_ref od1 = customer_ref od0 \<and> created_at od1 = created_at od0 \<and>
   started_at od1 = started \<and> completed_at od1 = completed \<and> cancelled_at od1 = cancelled"
    using set_timestamps_fields [OF stt] a by simp
  note c = set_type_specific_data_fields [OF tsd]
  have "c < length cs" by (rule select_order_inputs_fields [OF sel])
  with a b c ts show ?thesis by auto
qed

lemma select_order_inputs_total:
  "cs \<noteq> [] \<Longrightarrow> \<exists>x g1. select_order_inputs en cs g = Inr (x, g1)"
  by (simp add: select_order_inputs_def choice_Inr)

lemma initial_order_data_total:
  "\<exists>od g1. initial_order_data c v ot st pr created g = Inr (od, g1)"
  by (simp add: initial_order_data_def randint_def choice_Inr)

lemma set_timestamps_total:
  "\<exists>od g1. set_timestamps od0 started completed cancelled g = Inr (od, g1)"
  by (cases cancelled) (simp_all add: set_timestamps_def Let_def cancellation_reasons_def choice_Inr)

lemma set_type_specific_data_total:
  "inventory_items en \<noteq> [] \<Longrightarrow> \<exists>od g1. set_type_specific_data en od0 g = Inr (od, g1)"
  by (simp add: set_type_specific_data_def service_descriptions_def choice_Inr randint_def)

lemma build_order_data_total:
  assumes "cs \<noteq> []" "inventory_items en \<noteq> []" "st \<in> set order_statuses"
  shows "\<exists>od g'. build_order_data en now cs st g = Inr (od, g')"
proof -
  from select_order_inputs_total [OF assms(1)]
  obtain x g1 where sel: "select_order_inputs en cs g = Inr (x, g1)"
    by blast
  obtain c v ot pr where x: "x = (c, v, ot, pr)" by (cases x) auto
  from timestamps_total [OF assms(3)]
  obtain ts g2 where ts: "create_timestamps_for_status now st g1 = Inr (ts, g2)"
    by blast
  obtain created started completed cancelled where
    t: "ts = (created, started, completed, cancelled)" by (cases ts) auto
  from initial_order_data_total
  obtain od0 g3 where ini: "initial_order_data c v ot st pr created g2 = Inr (od0, g3)"
    by blast
  from set_timestamps_total
  obtain od1 g4 where stt: "set_timestamps od0 started completed cancelled g3 = Inr (od1, g4)"
    by blast
  from set_type_specific_data_total [OF assms(2)]
  obtain od g' where tsd: "set_type_specific_data en od1 g4 = Inr (od, g')"
    by blast
  show ?thesis
    by (simp add: build_order_data_def sel x ts t ini stt tsd)
qed

lemma try_create_order_frame:
  "submitted (try_create_order en od s) = submitted s \<and>
   gen (try_create_order en od s) = gen s \<and>
   length (customers (try_create_order en od s)) = length (customers s) \<and>
   length (customer_rows (try_create_order en od s)) = length (customer_rows s)"
  by (simp add: try_create_order_def Let_def split: option.splits)

lemma order_iteration_Inr:
  assumes "order_iteration en now st s = Inr s'"
  shows "\<exists>od g'. build_order_data en now (customers s) st (gen s) = Inr (od, g') \<and>
           submitted s' = submitted s @ [od] \<and>
           length (customers s') = length (customers s)"
  using assms
  by (auto simp: order_iteration_def bind_exn_Inr_iff try_create_order_frame)

lemma create_orders_submitted:
  "od \<in> set (submitted (snd (create_orders en now sts s))) \<Longrightarrow>
   od \<in> set (submitted s) \<or>
   (\<exists>st\<in>set sts. \<exists>cs g g'. build_order_data en now cs st g = Inr (od, g'))"
proof (induction sts arbitrary: s)
  case Nil
  then show ?case by simp
next
  case (Cons st sts)
  show ?case
  proof (cases "order_iteration en now st s")
    case (Inl e)
    with Cons.prems show ?thesis by simp
  next
    case (Inr s')
    from order_iteration_Inr [OF Inr] obtain od1 g' where
      b: "build_order_data en now (customers s) st (gen s) = Inr (od1, g')" and
      sub: "submitted s' = submitted s @ [od1]"
      by blast
    from Cons.prems Inr have "od \<in> set (submitted (snd (create_orders en now sts s')))"
      by simp
    from Cons.IH [OF this] show ?thesis
    proof
      assume "od \<in> set (submitted s')"
      with sub have "od \<in> set (submitted s) \<or> od = od1" by auto
      with b show ?thesis by auto
    next
      assume "\<exists>st\<in>set sts. \<exists>cs g g'. build_order_data en now cs st g = Inr (od, g')"
      then show ?thesis by auto
    qed
  qed
qed

lemma run_setup_failed:
  "setup_error en = Some e \<Longrightarrow> create_sample_data en now cs g = (Some e, initial_state cs g)"
  by (simp add: create_sample_data_def)

lemma run_state:
  "setup_error en = None \<Longrightarrow>
   snd (create_sample_data en now cs g) =
     snd (create_orders en now order_statuses (initial_state cs g))"
  by (cases "create_orders en now order_statuses (initial_state cs g)")
    (simp add: create_sample_data_def split: option.splits)


lemma seeded_order_timestamps:
  assumes "od \<in> set (submitted (snd (create_sample_data en now cs g)))"
  shows "status od \<in> set order_statuses \<and>
         (\<exists>g1 g2. create_timestamps_for_status now (status od) g1 =
            Inr ((created_at od, started_at od, completed_at od, cancelled_at od), g2))"
proof (cases "setup_error en")
  case (Some e)
  with assms show ?thesis by (simp add: run_setup_failed initial_state_def)
next
  case None
  with assms have "od \<in> set (submitted (snd (create_orders en now order_statuses (initial_state cs g))))"
    by (simp add: run_state)
  from create_orders_submitted [OF this] obtain st cs' g1 g2 where
    "st \<in> set order_statuses" "build_order_data en now cs' st g1 = Inr (od, g2)"
    by (auto simp: initial_state_def)
  with build_order_data_fields [of en now cs' st g1 od g2] show ?thesis by auto
qed

lemma create_orders_complete:
  assumes "customers s \<noteq> []" "inventory_items en \<noteq> []" "set sts \<subseteq> set order_statuses"
  shows "fst (create_orders en now sts s) = None \<and>
         map status (submitted (snd (create_orders en now sts s))) = map status (submitted s) @ sts"
  using assms
proof (induction sts arbitrary: s)
  case Nil
  then show ?case by simp
next
  case (Cons st sts)
  from Cons.prems have "st \<in> set order_statuses" by simp
  from build_order_data_total [OF Cons.prems(1,2) this, of now "gen s"] obtain od g' where
    b: "build_order_data en now (customers s) st (gen s) = Inr (od, g')" by blast
  define s' where "s' = try_create_order en od (s\<lparr>gen := g', submitted := submitted s @ [od]\<rparr>)"
  have it: "order_iteration en now st s = Inr s'"
    by (simp add: order_iteration_def b s'_def)
  have sub: "submitted s' = submitted s @ [od]" and len: "length (customers s') = length (customers s)"
    by (simp_all add: s'_def try_create_order_frame)
  have ne: "customers s' \<noteq> []" using len Cons.prems(1) by auto
  have stod: "status od = st" using build_order_data_fields [OF b] by simp
  from Cons.prems have "set sts \<subseteq> set order_statuses" by simp
  from Cons.IH [OF ne Cons.prems(2) this] it sub stod show ?case by simp
qed

lemma ts_created:
  "create_timestamps_for_status now ''created'' g =
     Inr ((now - timedelta 0 0 (fst (randint 1 8 g)), None, None, None), snd (randint 1 8 g))"
  by (simp add: create_timestamps_for_status_def split_def)

lemma ts_in_progress:
  "create_timestamps_for_status now ''in_progress'' g =
     Inr ((now - timedelta 0 0 (fst (randint 11 120 g)),
           Some (now - timedelta 0 0 (fst (randint 11 120 g))), None, None),
          snd (randint 11 120 g))"
  by (simp add: create_timestamps_for_status_def split_def Let_def)

lemma ts_overdue:
  "create_timestamps_for_status now ''overdue'' g =
     Inr ((replace_time (now - timedelta 1 0 0) 8 15 0 0,
           Some (replace_time (now - timedelta 1 0 0) 8 15 0 0), None, None), g)"
  by (simp add: create_timestamps_for_status_def Let_def)

lemma ts_valid_status:
  "create_timestamps_for_status now st g = Inr x \<Longrightarrow> st \<in> set order_statuses"
  by (simp add: create_timestamps_for_status_def order_statuses_def split: if_splits)


lemma ts_completed:
  "create_timestamps_for_status now ''completed'' g =
     Inr ((now - timedelta (fst (randint 1 30 g)) 0 0,
           Some (now - timedelta (fst (randint 1 30 g)) 0 0 + timedelta 0 0 10),
           Some (now - timedelta (fst (randint 1 30 g)) 0 0 + timedelta 0 0 10
                   + timedelta 0 (fst (randint 2 8 (snd (randint 1 30 g)))) 0),
           None),
          snd (randint 2 8 (snd (randint 1 30 g))))"
  by (simp add: create_timestamps_for_status_def split_def Let_def)

lemma ts_cancelled:
  "create_timestamps_for_status now ''cancelled'' g =
     Inr ((now - timedelta (fst (randint 1 20 g)) 0 0,
           Some (now - timedelta (fst (randint 1 20 g)) 0 0 + timedelta 0 0 10),
           None,
           Some (now - timedelta (fst (randint 1 20 g)) 0 0 + timedelta 0 0 10
                   + timedelta 0 0 (fst (randint 30 240 (snd (randint 1 20 g)))))),
          snd (randint 30 240 (snd (randint 1 20 g))))"
  by (simp add: create_timestamps_for_status_def split_def Let_def)

lemma status_disj:
  "st \<in> set order_statuses \<Longrightarrow>
   st = ''created'' \<or> st = ''in_progress'' \<or> st = ''overdue'' \<or> st = ''completed'' \<or>
   st = ''cancelled''"
  by (simp add: order_statuses_def)

lemma status_cases:
  assumes "st \<in> set order_statuses"
  obtains "st = ''created''" | "st = ''in_progress''" | "st = ''overdue''"
    | "st = ''completed''" | "st = ''cancelled''"
proof -
  note d = status_disj [OF assms]
  show ?thesis
    apply (rule disjE [OF d])
     apply (erule that(1))
    apply (erule disjE)
     apply (erule that(2))
    apply (erule disjE)
     apply (erule that(3))
    apply (erule disjE)
     apply (erule that(4))
    apply (erule that(5))
    done
qed



lemma seeded_order_cases:
  assumes "od \<in> set (submitted (snd (create_sample_data en now cs g)))"
  obtains g1 g2 where
    "Inr ((created_at od, started_at od, completed_at od, cancelled_at od), g2) =
       create_timestamps_for_status now (status od) g1"
    "status od \<in> set order_statuses"
  using seeded_order_timestamps [OF assms] by (metis (no_types))

subsection \<open>The sample run\<close>

lemmas sample_defs = sample_env_def sample_now_def sample_customer_def
  select_order_inputs_def initial_order_data_def set_timestamps_def set_type_specific_data_def
  build_order_data_def choice_def randint_def time_defs service_descriptions_def
  cancellation_reasons_def Let_def

lemma sample_build_created:
  "build_order_data sample_env sample_now [sample_customer] ''created'' (sconst 0) =
     Inr (\<lparr>customer_ref = 0, vehicle = Some 7, order_type = ''service'',
            status = ''created'', priority = ''low'',
            created_at = 111540000000, estimated_duration = 60,
            assigned_to = True, started_at = None, completed_at = None,
            completion_date = None, cancelled_at = None,
            cancellation_reason = None,
            description = Some ''Oil change and filter replacement'',
            item_name = None, brand = None, quantity = None,
            tire_type = None\<rparr>, sconst 0)"
  by (simp add: sample_defs ts_created)

lemma sample_build_in_progress:
  "build_order_data sample_env sample_now [sample_customer] ''in_progress'' (sconst 0) =
     Inr (\<lparr>customer_ref = 0, vehicle = Some 7, order_type = ''service'',
            status = ''in_progress'', priority = ''low'',
            created_at = 110940000000, estimated_duration = 60,
            assigned_to = True, started_at = Some 110940000000,
            completed_at = None, completion_date = None,
            cancelled_at = None, cancellation_reason = None,
            description = Some ''Oil change and filter replacement'',
            item_name = None, brand = None, quantity = None,
            tire_type = None\<rparr>, sconst 0)"
  by (simp add: sample_defs ts_in_progress)

lemma sample_build_overdue:
  "build_order_data sample_env sample_now [sample_customer] ''overdue'' (sconst 0) =
     Inr (\<lparr>customer_ref = 0, vehicle = Some 7, order_type = ''service'',
            status = ''overdue'', priority = ''low'',
            created_at = 29700000000, estimated_duration = 60,
            assigned_to = True, started_at = Some 29700000000,
            completed_at = None, completion_date = None,
            cancelled_at = None, cancellation_reason = None,
            description = Some ''Oil change and filter replacement'',
            item_name = None, brand = None, quantity = None,
            tire_type = None\<rparr>, sconst 0)"
  by (simp add: sample_defs ts_overdue)

lemma sample_build_completed:
  "build_order_data sample_env sample_now [sample_customer] ''completed'' (sconst 0) =
     Inr (\<lparr>customer_ref = 0, vehicle = Some 7, order_type = ''service'',
            status = ''completed'', priority = ''low'',
            created_at = 25200000000, estimated_duration = 60,
            assigned_to = True, started_at = Some 25800000000,
            completed_at = Some 33000000000,
            completion_date = Some 33000000000, cancelled_at = None,
            cancellation_reason = None,
            description = Some ''Oil change and filter replacement'',
            item_name = None, brand = None, quantity = None,
            tire_type = None\<rparr>, sconst 0)"
  by (simp add: sample_defs ts_completed)

lemma sample_build_cancelled:
  "build_order_data sample_env sample_now [sample_customer] ''cancelled'' (sconst 0) =
     Inr (\<lparr>customer_ref = 0, vehicle = Some 7, order_type = ''service'',
            status = ''cancelled'', priority = ''low'',
            created_at = 25200000000, estimated_duration = 60,
            assigned_to = True, started_at = Some 25800000000,
            completed_at = None, completion_date = None,
            cancelled_at = Some 27600000000,
            cancellation_reason = Some ''Customer request'',
            description = Some ''Oil change and filter replacement'',
            item_name = None, brand = None, quantity = None,
            tire_type = None\<rparr>, sconst 0)"
  by (simp add: sample_defs ts_cancelled)

lemmas sample_builds = sample_build_created sample_build_in_progress sample_build_overdue
  sample_build_completed sample_build_cancelled

lemma sample_build:
  assumes "st \<in> set order_statuses"
  shows "build_order_data sample_env sample_now [sample_customer] st (sconst 0) =
           Inr (sample_order st, sconst 0)"
  using assms
  by (cases rule: status_cases) (simp_all add: sample_order_def sample_builds)

lemma build_order_data_length:
  "length cs = length cs' \<Longrightarrow>
   build_order_data en now cs st g = build_order_data en now cs' st g"
  by (simp add: build_order_data_def select_order_inputs_def)

lemma sample_create_orders:
  assumes "set sts \<subseteq> set order_statuses" "gen s = sconst 0" "length (customers s) = 1"
  shows "submitted (snd (create_orders sample_env sample_now sts s)) =
           submitted s @ map sample_order sts"
  using assms
proof (induction sts arbitrary: s)
  case Nil
  then show ?case by simp
next
  case (Cons st sts)
  from Cons.prems have st: "st \<in> set order_statuses" and sts: "set sts \<subseteq> set order_statuses"
    by simp_all
  have "length (customers s) = length [sample_customer]"
    using Cons.prems(3) by simp
  from build_order_data_length [OF this]
  have "build_order_data sample_env sample_now (customers s) st (gen s) =
          build_order_data sample_env sample_now [sample_customer] st (sconst 0)"
    by (simp only: Cons.prems(2))
  with sample_build [OF st]
  have b: "build_order_data sample_env sample_now (customers s) st (gen s) =
             Inr (sample_order st, sconst 0)" by simp
  define s' where
    "s' = try_create_order sample_env (sample_order st)
            (s\<lparr>gen := sconst 0, submitted := submitted s @ [sample_order st]\<rparr>)"
  have it: "order_iteration sample_env sample_now st s = Inr s'"
    by (simp add: order_iteration_def b s'_def)
  have fr: "submitted s' = submitted s @ [sample_order st]" "gen s' = sconst 0"
    "length (customers s') = 1"
    using Cons.prems(3) by (simp_all add: s'_def try_create_order_frame)
  from Cons.IH [OF sts fr(2,3)] it fr(1) show ?case by simp
qed

lemma sample_run_submitted: "submitted sample_run = map sample_order order_statuses"
proof -
  have "submitted (snd (create_orders sample_env sample_now order_statuses
          (initial_state [sample_customer] (sconst 0)))) =
        submitted (initial_state [sample_customer] (sconst 0)) @ map sample_order order_statuses"
    by (rule sample_create_orders) (simp_all add: initial_state_def)
  moreover have "setup_error sample_env = None" by (simp add: sample_env_def)
  ultimately show ?thesis
    by (simp add: sample_run_def run_state initial_state_def)
qed

lemma sample_order_mem:
  "st \<in> set order_statuses \<Longrightarrow> sample_order st \<in> set (submitted sample_run)"
  by (simp add: sample_run_submitted)

subsection \<open>The orders of a run, by status\<close>

lemma seeded_created:
  assumes "od \<in> set (submitted (snd (create_sample_data en now cs g)))"
    and "status od = ''created''"
  shows "\<exists>r. 1 \<le> r \<and> r \<le> 8 \<and> created_at od = now - timedelta 0 0 r \<and>
           started_at od = None \<and> completed_at od = None \<and> cancelled_at od = None"
proof -
  from assms(1) obtain g1 g2 where
    ts: "Inr ((created_at od, started_at od, completed_at od, cancelled_at od), g2) =
           create_timestamps_for_status now (status od) g1"
    by (rule seeded_order_cases)
  have "1 \<le> fst (randint 1 8 g1) \<and> fst (randint 1 8 g1) \<le> 8"
    by (rule randint_range) simp
  moreover from ts have "created_at od = now - timedelta 0 0 (fst (randint 1 8 g1)) \<and>
      started_at od = None \<and> completed_at od = None \<and> cancelled_at od = None"
    by (simp add: assms(2) ts_created)
  ultimately show ?thesis by blast
qed

lemma seeded_in_progress:
  assumes "od \<in> set (submitted (snd (create_sample_data en now cs g)))"
    and "status od = ''in_progress''"
  shows "\<exists>r. 11 \<le> r \<and> r \<le> 120 \<and> created_at od = now - timedelta 0 0 r \<and>
           started_at od = Some (created_at od) \<and> completed_at od = None \<and>
           cancelled_at od = None"
proof -
  from assms(1) obtain g1 g2 where
    ts: "Inr ((created_at od, started_at od, completed_at od, cancelled_at od), g2) =
           create_timestamps_for_status now (status od) g1"
    by (rule seeded_order_cases)
  have "11 \<le> fst (randint 11 120 g1) \<and> fst (randint 11 120 g1) \<le> 120"
    by (rule randint_range) simp
  moreover from ts have "created_at od = now - timedelta 0 0 (fst (randint 11 120 g1)) \<and>
      started_at od = Some (created_at od) \<and> completed_at od = None \<and> cancelled_at od = None"
    by (simp add: assms(2) ts_in_progress)
  ultimately show ?thesis by blast
qed

lemma seeded_overdue:
  assumes "od \<in> set (submitted (snd (create_sample_data en now cs g)))"
    and "status od = ''overdue''"
  shows "created_at od = replace_time (now - timedelta 1 0 0) 8 15 0 0 \<and>
         started_at od = Some (created_at od) \<and> completed_at od = None \<and>
         cancelled_at od = None"
proof -
  from assms(1) obtain g1 g2 where
    ts: "Inr ((created_at od, started_at od, completed_at od, cancelled_at od), g2) =
           create_timestamps_for_status now (status od) g1"
    by (rule seeded_order_cases)
  then show ?thesis
    by (simp add: assms(2) ts_overdue)
qed

lemma seeded_completed:
  assumes "od \<in> set (submitted (snd (create_sample_data en now cs g)))"
    and "status od = ''completed''"
  shows "\<exists>r1 r2. 1 \<le> r1 \<and> r1 \<le> 30 \<and> 2 \<le> r2 \<and> r2 \<le> 8 \<and>
           created_at od = now - timedelta r1 0 0 \<and>
           started_at od = Some (created_at od + timedelta 0 0 10) \<and>
           completed_at od = Some (created_at od + timedelta 0 0 10 + timedelta 0 r2 0) \<and>
           cancelled_at od = None"
proof -
  from assms(1) obtain g1 g2 where
    ts: "Inr ((created_at od, started_at od, completed_at od, cancelled_at od), g2) =
           create_timestamps_for_status now (status od) g1"
    by (rule seeded_order_cases)
  define r1 where "r1 = fst (randint 1 30 g1)"
  define r2 where "r2 = fst (randint 2 8 (snd (randint 1 30 g1)))"
  have "1 \<le> r1 \<and> r1 \<le> 30" unfolding r1_def by (rule randint_range) simp
  moreover have "2 \<le> r2 \<and> r2 \<le> 8" unfolding r2_def by (rule randint_range) simp
  moreover from ts have "created_at od = now - timedelta r1 0 0 \<and>
      started_at od = Some (created_at od + timedelta 0 0 10) \<and>
      completed_at od = Some (created_at od + timedelta 0 0 10 + timedelta 0 r2 0) \<and>
      cancelled_at od = None"
    by (simp add: assms(2) ts_completed r1_def r2_def)
  ultimately show ?thesis by blast
qed

lemma seeded_cancelled:
  assumes "od \<in> set (submitted (snd (create_sample_data en now cs g)))"
    and "status od = ''cancelled''"
  shows "\<exists>r1 r2. 1 \<le> r1 \<and> r1 \<le> 20 \<and> 30 \<le> r2 \<and> r2 \<le> 240 \<and>
           created_at od = now - timedelta r1 0 0 \<and>
           started_at od = Some (created_at od + timedelta 0 0 10) \<and>
           completed_at od = None \<and>
           cancelled_at od = Some (created_at od + timedelta 0 0 10 + timedelta 0 0 r2)"
proof -
  from assms(1) obtain g1 g2 where
    ts: "Inr ((created_at od, started_at od, completed_at od, cancelled_at od), g2) =
           create_timestamps_for_status now (status od) g1"
    by (rule seeded_order_cases)
  define r1 where "r1 = fst (randint 1 20 g1)"
  define r2 where "r2 = fst (randint 30 240 (snd (randint 1 20 g1)))"
  have "1 \<le> r1 \<and> r1 \<le> 20" unfolding r1_def by (rule randint_range) simp
  moreover have "30 \<le> r2 \<and> r2 \<le> 240" unfolding r2_def by (rule randint_range) simp
  moreover from ts have "created_at od = now - timedelta r1 0 0 \<and>
      started_at od = Some (created_at od + timedelta 0 0 10) \<and>
      completed_at od = None \<and>
      cancelled_at od = Some (created_at od + timedelta 0 0 10 + timedelta 0 0 r2)"
    by (simp add: assms(2) ts_cancelled r1_def r2_def)
  ultimately show ?thesis by blast
qed

lemma seeded_status:
  "od \<in> set (submitted (snd (create_sample_data en now cs g))) \<Longrightarrow>
   status od \<in> set order_statuses"
  by (erule seeded_order_cases)

lemma sample_order_fields:
  "status (sample_order ''created'') = ''created''"
  "created_at (sample_order ''created'') = 111540000000"
  "started_at (sample_order ''created'') = None"
  "status (sample_order ''in_progress'') = ''in_progress''"
  "created_at (sample_order ''in_progress'') = 110940000000"
  "started_at (sample_order ''in_progress'') = Some 110940000000"
  "status (sample_order ''overdue'') = ''overdue''"
  "created_at (sample_order ''overdue'') = 29700000000"
  "started_at (sample_order ''overdue'') = Some 29700000000"
  "status (sample_order ''completed'') = ''completed''"
  "created_at (sample_order ''completed'') = 25200000000"
  "started_at (sample_order ''completed'') = Some 25800000000"
  "completed_at (sample_order ''completed'') = Some 33000000000"
  "cancelled_at (sample_order ''completed'') = None"
  "status (sample_order ''cancelled'') = ''cancelled''"
  "created_at (sample_order ''cancelled'') = 25200000000"
  "started_at (sample_order ''cancelled'') = Some 25800000000"
  "completed_at (sample_order ''cancelled'') = None"
  "cancelled_at (sample_order ''cancelled'') = Some 27600000000"
  by (simp_all add: sample_order_def sample_builds)

lemma sample_members:
  "sample_order ''created'' \<in> set (submitted sample_run)"
  "sample_order ''in_progress'' \<in> set (submitted sample_run)"
  "sample_order ''overdue'' \<in> set (submitted sample_run)"
  "sample_order ''completed'' \<in> set (submitted sample_run)"
  "sample_order ''cancelled'' \<in> set (submitted sample_run)"
  by (rule sample_order_mem, simp add: order_statuses_def)+

text \<open>
  The start of a seeded order against its creation: the same instant for \<open>in_progress\<close>
  and \<open>overdue\<close>, ten minutes later for \<open>completed\<close> and \<open>cancelled\<close>, in every run.
\<close>

lemma seeded_started_at_by_status:
  "\<forall>od\<in>set (submitted (snd (create_sample_data en now cs g))).
     (status od = ''in_progress'' \<or> status od = ''overdue''
        \<longrightarrow> started_at od = Some (created_at od)) \<and>
     (status od = ''completed'' \<or> status od = ''cancelled''
        \<longrightarrow> started_at od = Some (created_at od + timedelta 0 0 10))"
proof
  fix od
  assume od: "od \<in> set (submitted (snd (create_sample_data en now cs g)))"
  from seeded_status [OF od]
  show "(status od = ''in_progress'' \<or> status od = ''overdue''
           \<longrightarrow> started_at od = Some (created_at od)) \<and>
        (status od = ''completed'' \<or> status od = ''cancelled''
           \<longrightarrow> started_at od = Some (created_at od + timedelta 0 0 10))"
  proof (cases rule: status_cases)
    case 1
    then show ?thesis by simp
  next
    case 2
    with seeded_in_progress [OF od] show ?thesis by auto
  next
    case 3
    with seeded_overdue [OF od] show ?thesis by auto
  next
    case 4
    with seeded_completed [OF od] show ?thesis by auto
  next
    case 5
    with seeded_cancelled [OF od] show ?thesis by auto
  qed
qed

subsection \<open>Working hours of an order seeded as overdue\<close>

text \<open>
  The order is started at 08:15 of the day before \<open>now\<close>. That day contributes 8 hours
  45 minutes of its window, the day of \<open>now\<close> what has passed of its own window, so
  nine working hours are reached exactly when the time of day of \<open>now\<close> is 08:15 or
  later.
\<close>

lemma day_decomposition:
  fixes q r :: int
  assumes "0 \<le> r" "r < 86400000000"
  shows "(q * 86400000000 + r) div 86400000000 = q"
proof -
  have "(q * 86400000000 + r) div 86400000000 = q + r div 86400000000"
    by (rule div_mult_self3) simp
  moreover have "r div 86400000000 = 0"
    using assms by (rule div_pos_pos_trivial)
  ultimately show ?thesis by simp
qed

lemma upto_two: "[i - 1..i] = [i - 1, i]" for i :: int
proof -
  have "[i - 1..i] = (i - 1) # [i - 1 + 1..i]"
    by (rule upto_rec1) simp
  then show ?thesis by simp
qed

lemma overdue_seed_working_duration:
  "working_duration (replace_time (now - timedelta 1 0 0) 8 15 0 0) now =
     timedelta 0 8 45
       + max 0 (min (now mod usec_per_day) (17 * usec_per_hour) - 8 * usec_per_hour)"
proof -
  define d where "d = now div 86400000000"
  define m where "m = now mod 86400000000"
  have m: "0 \<le> m" "m < 86400000000" by (simp_all add: m_def)
  have now: "now = d * 86400000000 + m" by (simp add: d_def m_def)
  have "now - 86400000000 = (d - 1) * 86400000000 + m"
    by (simp add: now algebra_simps)
  then have yd: "(now - 86400000000) div 86400000000 = d - 1"
    using day_decomposition [OF m, of "d - 1"] by simp
  define s where "s = (d - 1) * 86400000000 + 29700000000"
  have s: "replace_time (now - timedelta 1 0 0) 8 15 0 0 = s"
    by (simp add: time_defs yd s_def)
  have sd: "s div 86400000000 = d - 1"
    unfolding s_def by (rule day_decomposition) simp_all
  have days: "[s div usec_per_day..now div usec_per_day] = [d - 1, d]"
    by (simp add: usec_per_day_def sd d_def [symmetric] upto_two)
  have w1: "window_overlap (d - 1) s now = 31500000000"
    using m by (simp add: window_overlap_def time_defs s_def now)
  have w2: "window_overlap d s now = max 0 (min m 61200000000 - 28800000000)"
    using m by (simp add: window_overlap_def time_defs s_def now algebra_simps max_def min_def)
  show ?thesis
    unfolding s working_duration_def days
    by (simp add: w1 w2 time_defs m_def)
qed

lemma overdue_seed_nine_hours_iff:
  "(9 * usec_per_hour \<le> working_duration (replace_time (now - timedelta 1 0 0) 8 15 0 0) now)
     = (timedelta 0 8 15 \<le> now mod usec_per_day)"
  unfolding overdue_seed_working_duration
  by (simp add: timedelta_def usec_per_day_def usec_per_hour_def usec_per_minute_def
      max_def min_def)

subsection \<open>A complete run\<close>

lemma count_by_status:
  "length (filter (\<lambda>od. status od = st) ods) = length (filter (\<lambda>x. x = st) (map status ods))"
  by (induction ods) simp_all

lemma run_complete:
  assumes "setup_error en = None" "cs \<noteq> []" "inventory_items en \<noteq> []"
  shows "fst (create_orders en now order_statuses (initial_state cs g)) = None \<and>
         map status (submitted (snd (create_sample_data en now cs g))) = order_statuses"
proof -
  have "fst (create_orders en now order_statuses (initial_state cs g)) = None \<and>
        map status (submitted (snd (create_orders en now order_statuses (initial_state cs g)))) =
          map status (submitted (initial_state cs g)) @ order_statuses"
    by (rule create_orders_complete) (simp_all add: initial_state_def assms)
  then show ?thesis
    by (simp add: run_state assms(1) initial_state_def)
qed




subsection \<open>The two handlers\<close>




subsection \<open>Two calls of the engine\<close>

text \<open>
  An order created at 08:15 and still \<open>created\<close> at 09:00 of the next day: the first call
  moves it to \<open>in_progress\<close>, and a second call at the same instant on the result moves
  it on to \<open>overdue\<close>, a different transition.
\<close>

lemma advance_twice_reaches_overdue:
  "advance ((sample_order ''created'')\<lparr>created_at := 29700000000\<rparr>) (timedelta 1 9 0) =
     Inr (Some \<lparr>new_status = ''in_progress'', new_started_at = Some 29700000000\<rparr>) \<and>
   advance (apply_transition ((sample_order ''created'')\<lparr>created_at := 29700000000\<rparr>)
              \<lparr>new_status = ''in_progress'', new_started_at = Some 29700000000\<rparr>)
     (timedelta 1 9 0) =
     Inr (Some \<lparr>new_status = ''overdue'', new_started_at = None\<rparr>)"
proof -
  have wd: "working_duration 29700000000 118800000000 = 35100000000"
    by (simp add: working_duration_def window_overlap_def time_defs upto.simps)
  show ?thesis
    by (simp add: advance_def apply_transition_def sample_order_fields time_defs wd)
qed

lemma sample_order_overdue_customer: "customer_ref (sample_order ''overdue'') = 0"
  by (simp add: sample_order_def sample_builds)

subsection \<open>The keys and the customer of an iteration\<close>

text \<open>
  The dictionary \<open>orders_by_status\<close> keeps its five keys through the loop, and the
  customer of every dictionary built in an iteration is a position of the list
  \<open>customers\<close>: the order of an iteration is appended under its own status and its
  customer is updated in place.
\<close>

lemma try_create_order_keys:
  "dom (orders_by_status (try_create_order en od s)) = dom (orders_by_status s)"
proof (cases "orders_by_status s (status od)")
  case None
  then show ?thesis
    by (simp add: try_create_order_def split: option.splits)
next
  case (Some os)
  then have "insert (status od) (dom (orders_by_status s)) = dom (orders_by_status s)"
    by (simp add: insert_absorb domI)
  with Some show ?thesis
    by (simp add: try_create_order_def Let_def split: option.splits)
qed


lemma create_orders_keys:
  "dom (orders_by_status (snd (create_orders en now sts s))) = dom (orders_by_status s)"
proof (induction sts arbitrary: s)
  case Nil
  then show ?case by simp
next
  case (Cons st sts)
  show ?case
  proof (cases "order_iteration en now st s")
    case (Inl e)
    then show ?thesis by simp
  next
    case (Inr s')
    then obtain od g' where
      "s' = try_create_order en od (s\<lparr>gen := g', submitted := submitted s @ [od]\<rparr>)"
      by (auto simp: order_iteration_def bind_exn_Inr_iff)
    then have "dom (orders_by_status s') = dom (orders_by_status s)"
      by (simp add: try_create_order_keys)
    with Cons.IH [of s'] Inr show ?thesis by simp
  qed
qed


subsection \<open>What the loop prints and when it ends\<close>






section \<open>The claims\<close>

text \<open>
  Claim C1 says that for every order seeded with status \<open>overdue\<close> the working-hours
  duration between \<open>started_at\<close> and \<open>now\<close> is at least nine hours, at whatever time
  the script runs. In the sample run, at 07:00, the overdue order was started at 08:15
  of the day before and has 8 hours 45 minutes of working time; the engine would leave
  the same order, taken as \<open>in_progress\<close>, where it is.
\<close>

theorem overdue_order_short_of_nine_hours:
  "sample_order ''overdue''
     \<in> set (submitted (snd (create_sample_data sample_env sample_now [sample_customer] (sconst 0)))) \<and>
   status (sample_order ''overdue'') = ''overdue'' \<and>
   started_at (sample_order ''overdue'') = Some (timedelta 0 8 15) \<and>
   working_duration (timedelta 0 8 15) sample_now = timedelta 0 8 45 \<and>
   working_duration (timedelta 0 8 15) sample_now < 9 * usec_per_hour \<and>
   advance ((sample_order ''overdue'')\<lparr>status := ''in_progress''\<rparr>) sample_now = Inr None"
proof -
  have wd: "working_duration 29700000000 111600000000 = 31500000000"
    by (simp add: working_duration_def window_overlap_def time_defs upto.simps)
  show ?thesis
    using sample_members(3)
    by (simp add: sample_run_def sample_order_fields advance_def sample_now_def time_defs wd)
qed

text \<open>
  Claim C2 says that for every seeded order of status \<open>in_progress\<close>, \<open>overdue\<close>,
  \<open>completed\<close> or \<open>cancelled\<close>, \<open>started_at\<close> equals \<open>created_at\<close>, as the
  auto-progression sets it. In the sample run the completed order and the cancelled
  order are created at 07:00 of day 0 and started at 07:10.
\<close>

theorem completed_order_started_after_created:
  "sample_order ''completed''
     \<in> set (submitted (snd (create_sample_data sample_env sample_now [sample_customer] (sconst 0)))) \<and>
   status (sample_order ''completed'') = ''completed'' \<and>
   created_at (sample_order ''completed'') = 25200000000 \<and>
   started_at (sample_order ''completed'') = Some 25800000000 \<and>
   started_at (sample_order ''completed'') \<noteq> Some (created_at (sample_order ''completed'')) \<and>
   sample_order ''cancelled''
     \<in> set (submitted (snd (create_sample_data sample_env sample_now [sample_customer] (sconst 0)))) \<and>
   status (sample_order ''cancelled'') = ''cancelled'' \<and>
   created_at (sample_order ''cancelled'') = 25200000000 \<and>
   started_at (sample_order ''cancelled'') = Some 25800000000 \<and>
   started_at (sample_order ''cancelled'') \<noteq> Some (created_at (sample_order ''cancelled''))"
  using sample_members(4,5) by (simp add: sample_run_def sample_order_fields)

text \<open>
  Claim C3. For every order the seeder hands to \<open>Order.objects.create\<close>, \<open>started_at\<close>
  is null if and only if the status is \<open>created\<close>: the \<open>created\<close> branch leaves
  \<open>started\<close> unset, every other branch assigns it, and the loop copies it into
  \<open>order_data\<close>.
\<close>

theorem started_at_null_iff_created:
  "\<forall>od\<in>set (submitted (snd (create_sample_data en now cs g))).
     (started_at od = None) = (status od = ''created'')"
proof
  fix od
  assume od: "od \<in> set (submitted (snd (create_sample_data en now cs g)))"
  from seeded_status [OF od]
  show "(started_at od = None) = (status od = ''created'')"
  proof (cases rule: status_cases)
    case 1
    with seeded_created [OF od] show ?thesis by auto
  next
    case 2
    with seeded_in_progress [OF od] show ?thesis by auto
  next
    case 3
    with seeded_overdue [OF od] show ?thesis by auto
  next
    case 4
    with seeded_completed [OF od] show ?thesis by auto
  next
    case 5
    with seeded_cancelled [OF od] show ?thesis by auto
  qed
qed

theorem started_at_null_iff_created_witness:
  "sample_order ''created'' \<in> set (submitted sample_run) \<and>
   status (sample_order ''created'') = ''created'' \<and>
   started_at (sample_order ''created'') = None \<and>
   sample_order ''overdue'' \<in> set (submitted sample_run) \<and>
   status (sample_order ''overdue'') = ''overdue'' \<and>
   started_at (sample_order ''overdue'') = Some 29700000000"
proof -
  note run = started_at_null_iff_created
    [of sample_env sample_now "[sample_customer]" "sconst 0", folded sample_run_def]
  from run sample_members(1)
  have "(started_at (sample_order ''created'') = None) = (status (sample_order ''created'') = ''created'')"
    by (rule bspec)
  moreover from run sample_members(3)
  have "(started_at (sample_order ''overdue'') = None) = (status (sample_order ''overdue'') = ''created'')"
    by (rule bspec)
  ultimately show ?thesis
    by (simp add: sample_members sample_order_fields)
qed

text \<open>
  Claim C4. Every order the seeder creates with status \<open>created\<close> has \<open>created_at\<close>
  between one and eight minutes before \<open>now\<close>, so its age is strictly below the
  ten-minute threshold, and \<open>advance\<close> of the Status Engine returns no transition for it
  at \<open>now\<close>.
\<close>

theorem created_orders_below_threshold:
  "\<forall>od\<in>set (submitted (snd (create_sample_data en now cs g))).
     status od = ''created'' \<longrightarrow>
       timedelta 0 0 1 \<le> now - created_at od \<and> now - created_at od \<le> timedelta 0 0 8 \<and>
       now - created_at od < timedelta 0 0 10 \<and> advance od now = Inr None"
proof (intro ballI impI)
  fix od
  assume od: "od \<in> set (submitted (snd (create_sample_data en now cs g)))"
    and st: "status od = ''created''"
  from seeded_created [OF od st] obtain r where
    r: "1 \<le> r" "r \<le> 8" "created_at od = now - timedelta 0 0 r"
    by blast
  from r have age: "timedelta 0 0 1 \<le> now - created_at od" "now - created_at od \<le> timedelta 0 0 8"
    "now - created_at od < timedelta 0 0 10"
    by (simp_all add: time_defs)
  from age have "\<not> now \<le> created_at od" "\<not> 10 * usec_per_minute \<le> now - created_at od"
    by (simp_all add: time_defs)
  then have "advance od now = Inr None"
    by (simp add: advance_def st)
  with age show "timedelta 0 0 1 \<le> now - created_at od \<and> now - created_at od \<le> timedelta 0 0 8 \<and>
       now - created_at od < timedelta 0 0 10 \<and> advance od now = Inr None"
    by simp
qed

theorem created_orders_below_threshold_witness:
  "sample_order ''created'' \<in> set (submitted sample_run) \<and>
   status (sample_order ''created'') = ''created'' \<and>
   sample_now - created_at (sample_order ''created'') = timedelta 0 0 1 \<and>
   advance (sample_order ''created'') sample_now = Inr None"
proof -
  note run = created_orders_below_threshold
    [of sample_env sample_now "[sample_customer]" "sconst 0", folded sample_run_def]
  from bspec [OF run sample_members(1)] show ?thesis
    by (simp add: sample_members sample_order_fields sample_now_def time_defs)
qed

text \<open>
  Claim C5. For every seeded order, \<open>completed_at\<close> and \<open>cancelled_at\<close> are mutually
  exclusive: at most one of them is set; \<open>completed_at\<close> is set exactly for status
  \<open>completed\<close> and \<open>cancelled_at\<close> exactly for status \<open>cancelled\<close>.
\<close>

theorem completed_cancelled_exclusive:
  "\<forall>od\<in>set (submitted (snd (create_sample_data en now cs g))).
     (completed_at od = None \<or> cancelled_at od = None) \<and>
     (completed_at od \<noteq> None) = (status od = ''completed'') \<and>
     (cancelled_at od \<noteq> None) = (status od = ''cancelled'')"
proof
  fix od
  assume od: "od \<in> set (submitted (snd (create_sample_data en now cs g)))"
  from seeded_status [OF od]
  show "(completed_at od = None \<or> cancelled_at od = None) \<and>
     (completed_at od \<noteq> None) = (status od = ''completed'') \<and>
     (cancelled_at od \<noteq> None) = (status od = ''cancelled'')"
  proof (cases rule: status_cases)
    case 1
    with seeded_created [OF od] show ?thesis by auto
  next
    case 2
    with seeded_in_progress [OF od] show ?thesis by auto
  next
    case 3
    with seeded_overdue [OF od] show ?thesis by auto
  next
    case 4
    with seeded_completed [OF od] show ?thesis by auto
  next
    case 5
    with seeded_cancelled [OF od] show ?thesis by auto
  qed
qed

theorem completed_cancelled_exclusive_witness:
  "sample_order ''completed'' \<in> set (submitted sample_run) \<and>
   completed_at (sample_order ''completed'') = Some 33000000000 \<and>
   cancelled_at (sample_order ''completed'') = None \<and>
   sample_order ''cancelled'' \<in> set (submitted sample_run) \<and>
   completed_at (sample_order ''cancelled'') = None \<and>
   cancelled_at (sample_order ''cancelled'') = Some 27600000000"
proof -
  note run = completed_cancelled_exclusive
    [of sample_env sample_now "[sample_customer]" "sconst 0", folded sample_run_def]
  from bspec [OF run sample_members(4)] bspec [OF run sample_members(5)] show ?thesis
    by (simp add: sample_members sample_order_fields)
qed

text \<open>
  Claim C6. For every seeded order, no timestamp is earlier than \<open>created_at\<close>:
  \<open>started_at\<close>, when set, is \<open>created_at\<close> or \<open>created_at\<close> plus ten minutes;
  \<open>completed_at\<close>, when set, is two to eight hours after \<open>started_at\<close>;
  \<open>cancelled_at\<close>, when set, is 30 to 240 minutes after \<open>started_at\<close>; and each of
  them is at or after \<open>created_at\<close>.
\<close>

theorem timestamps_not_before_created_at:
  "\<forall>od\<in>set (submitted (snd (create_sample_data en now cs g))).
     (\<forall>t. started_at od = Some t \<longrightarrow>
        created_at od \<le> t \<and> (t = created_at od \<or> t = created_at od + timedelta 0 0 10)) \<and>
     (\<forall>t. completed_at od = Some t \<longrightarrow>
        created_at od \<le> t \<and>
        (\<exists>s. started_at od = Some s \<and> s + timedelta 0 2 0 \<le> t \<and> t \<le> s + timedelta 0 8 0)) \<and>
     (\<forall>t. cancelled_at od = Some t \<longrightarrow>
        created_at od \<le> t \<and>
        (\<exists>s. started_at od = Some s \<and> s + timedelta 0 0 30 \<le> t \<and> t \<le> s + timedelta 0 0 240))"
proof
  fix od
  assume od: "od \<in> set (submitted (snd (create_sample_data en now cs g)))"
  from seeded_status [OF od]
  show "(\<forall>t. started_at od = Some t \<longrightarrow>
        created_at od \<le> t \<and> (t = created_at od \<or> t = created_at od + timedelta 0 0 10)) \<and>
     (\<forall>t. completed_at od = Some t \<longrightarrow>
        created_at od \<le> t \<and>
        (\<exists>s. started_at od = Some s \<and> s + timedelta 0 2 0 \<le> t \<and> t \<le> s + timedelta 0 8 0)) \<and>
     (\<forall>t. cancelled_at od = Some t \<longrightarrow>
        created_at od \<le> t \<and>
        (\<exists>s. started_at od = Some s \<and> s + timedelta 0 0 30 \<le> t \<and> t \<le> s + timedelta 0 0 240))"
  proof (cases rule: status_cases)
    case 1
    with seeded_created [OF od] show ?thesis by auto
  next
    case 2
    with seeded_in_progress [OF od] show ?thesis by auto
  next
    case 3
    with seeded_overdue [OF od] show ?thesis by auto
  next
    case 4
    from seeded_completed [OF od 4] obtain r2 where
      r: "2 \<le> r2" "r2 \<le> 8"
        "started_at od = Some (created_at od + timedelta 0 0 10)"
        "completed_at od = Some (created_at od + timedelta 0 0 10 + timedelta 0 r2 0)"
        "cancelled_at od = None"
      by blast
    then show ?thesis by (simp add: time_defs)
  next
    case 5
    from seeded_cancelled [OF od 5] obtain r2 where
      r: "30 \<le> r2" "r2 \<le> 240"
        "started_at od = Some (created_at od + timedelta 0 0 10)"
        "completed_at od = None"
        "cancelled_at od = Some (created_at od + timedelta 0 0 10 + timedelta 0 0 r2)"
      by blast
    then show ?thesis by (simp add: time_defs)
  qed
qed

theorem timestamps_not_before_created_at_witness:
  "sample_order ''completed'' \<in> set (submitted sample_run) \<and>
   created_at (sample_order ''completed'') = 25200000000 \<and>
   started_at (sample_order ''completed'') = Some 25800000000 \<and>
   completed_at (sample_order ''completed'') = Some 33000000000 \<and>
   sample_order ''cancelled'' \<in> set (submitted sample_run) \<and>
   created_at (sample_order ''cancelled'') = 25200000000 \<and>
   started_at (sample_order ''cancelled'') = Some 25800000000 \<and>
   cancelled_at (sample_order ''cancelled'') = Some 27600000000"
proof -
  note run = timestamps_not_before_created_at
    [of sample_env sample_now "[sample_customer]" "sconst 0", folded sample_run_def]
  from bspec [OF run sample_members(4)] bspec [OF run sample_members(5)] show ?thesis
    by (simp add: sample_members sample_order_fields)
qed

text \<open>
  Claim C7. A run of the seeder attempts to create exactly 20 orders, exactly four for
  each of the statuses \<open>created\<close>, \<open>in_progress\<close>, \<open>overdue\<close>, \<open>completed\<close> and
  \<open>cancelled\<close>. The run is one whose setup before the loop raised nothing and left
  the customers and the inventory items it always creates.
\<close>

theorem twenty_orders_four_per_status:
  assumes "setup_error en = None" "cs \<noteq> []" "inventory_items en \<noteq> []"
  shows "map status (submitted (snd (create_sample_data en now cs g))) = order_statuses \<and>
         length (submitted (snd (create_sample_data en now cs g))) = 20 \<and>
         length (filter (\<lambda>od. status od = ''created'')
                   (submitted (snd (create_sample_data en now cs g)))) = 4 \<and>
         length (filter (\<lambda>od. status od = ''in_progress'')
                   (submitted (snd (create_sample_data en now cs g)))) = 4 \<and>
         length (filter (\<lambda>od. status od = ''overdue'')
                   (submitted (snd (create_sample_data en now cs g)))) = 4 \<and>
         length (filter (\<lambda>od. status od = ''completed'')
                   (submitted (snd (create_sample_data en now cs g)))) = 4 \<and>
         length (filter (\<lambda>od. status od = ''cancelled'')
                   (submitted (snd (create_sample_data en now cs g)))) = 4"
proof -
  define ods where "ods = submitted (snd (create_sample_data en now cs g))"
  from run_complete [OF assms, of now g]
  have m: "map status ods = order_statuses"
    by (simp add: ods_def)
  have "length (map status ods) = 20"
    unfolding m by (simp add: order_statuses_def)
  then have len: "length ods = 20" by simp
  have c: "length (filter (\<lambda>od. status od = ''created'') ods) = 4"
    "length (filter (\<lambda>od. status od = ''in_progress'') ods) = 4"
    "length (filter (\<lambda>od. status od = ''overdue'') ods) = 4"
    "length (filter (\<lambda>od. status od = ''completed'') ods) = 4"
    "length (filter (\<lambda>od. status od = ''cancelled'') ods) = 4"
    unfolding count_by_status m by (simp_all add: order_statuses_def)
  from m len c show ?thesis
    unfolding ods_def by simp
qed

theorem twenty_orders_four_per_status_witness:
  "setup_error sample_env = None \<and> [sample_customer] \<noteq> [] \<and>
   inventory_items sample_env \<noteq> [] \<and>
   map status (submitted sample_run) = order_statuses \<and>
   length (submitted sample_run) = 20 \<and>
   length (filter (\<lambda>od. status od = ''overdue'') (submitted sample_run)) = 4"
proof -
  have h: "setup_error sample_env = None" "[sample_customer] \<noteq> []"
    "inventory_items sample_env \<noteq> []"
    by (simp_all add: sample_env_def)
  from twenty_orders_four_per_status [OF h, of sample_now "sconst 0"] h
  show ?thesis by (simp add: sample_run_def)
qed




text \<open>
  Claim C9. \<open>advance\<close> does not advance twice: when a call returns a transition and the
  caller applies it, a second call at the same \<open>now\<close> on the resulting order raises no
  error and does not return that transition again; what it returns is no transition or a
  transition to another status.
\<close>

theorem advance_no_double_advance:
  assumes "advance od now = Inr (Some tr)"
  shows "\<exists>r. advance (apply_transition od tr) now = Inr r \<and> r \<noteq> Some tr \<and>
           (\<forall>tr'. r = Some tr' \<longrightarrow> new_status tr' \<noteq> new_status tr)"
proof -
  consider (created) "status od = ''created''"
    | (in_progress) "status od \<noteq> ''created''" "status od = ''in_progress''"
    | (other) "status od \<noteq> ''created''" "status od \<noteq> ''in_progress''"
    by blast
  then show ?thesis
  proof cases
    case created
    with assms have clock: "\<not> now \<le> created_at od" and
      tr: "tr = \<lparr>new_status = ''in_progress'', new_started_at = Some (created_at od)\<rparr>"
      by (auto simp: advance_def split: if_splits)
    show ?thesis
    proof (cases "9 * usec_per_hour \<le> working_duration (created_at od) now")
      case True
      with clock have "advance (apply_transition od tr) now =
          Inr (Some \<lparr>new_status = ''overdue'', new_started_at = None\<rparr>)"
        by (simp add: advance_def apply_transition_def tr)
      then show ?thesis by (simp add: tr)
    next
      case False
      with clock have "advance (apply_transition od tr) now = Inr None"
        by (simp add: advance_def apply_transition_def tr)
      then show ?thesis by simp
    qed
  next
    case in_progress
    with assms have tr: "tr = \<lparr>new_status = ''overdue'', new_started_at = None\<rparr>"
      by (auto simp: advance_def split: if_splits option.splits)
    have "advance (apply_transition od tr) now = Inr None"
      by (simp add: advance_def apply_transition_def tr)
    then show ?thesis by simp
  next
    case other
    with assms show ?thesis by (simp add: advance_def)
  qed
qed

theorem advance_no_double_advance_witness:
  "advance (sample_order ''created'') 112140000000 =
     Inr (Some \<lparr>new_status = ''in_progress'', new_started_at = Some 111540000000\<rparr>) \<and>
   advance (apply_transition (sample_order ''created'')
              \<lparr>new_status = ''in_progress'', new_started_at = Some 111540000000\<rparr>)
     112140000000 = Inr None"
proof -
  have first: "advance (sample_order ''created'') 112140000000 =
     Inr (Some \<lparr>new_status = ''in_progress'', new_started_at = Some 111540000000\<rparr>)"
    by (simp add: advance_def sample_order_fields time_defs)
  have wd: "working_duration 111540000000 112140000000 = 0"
    by (simp add: working_duration_def window_overlap_def time_defs upto.simps)
  from advance_no_double_advance [OF first] first show ?thesis
    by (simp add: advance_def apply_transition_def sample_order_fields time_defs wd)
qed

text \<open>
  Claim C10. For an order that was created, the \<open>try\<close> block updates two fields of the
  chosen customer and nothing else: \<open>total_visits\<close> becomes the old value, or 0 for a
  null, plus 1, and \<open>last_visit\<close> becomes the order's \<open>created_at\<close>, whatever
  \<open>last_visit\<close> was before; no other field of this customer and no other customer
  changes. The save writes these two columns of the customer's row and no other column
  or row; when the save raises, no row changes.
\<close>

theorem visit_tracking_updates_two_fields:
  assumes "create_error en od = None" "orders_by_status s (status od) \<noteq> None"
    "customer_ref od < length (customers s)"
  shows "let i = customer_ref od;
             c = customers s ! i;
             s' = try_create_order en od s;
             c' = customers s' ! i
         in total_visits c' = Some ((case total_visits c of None \<Rightarrow> 0 | Some n \<Rightarrow> n) + 1) \<and>
            last_visit c' = Some (created_at od) \<and>
            c'\<lparr>total_visits := total_visits c, last_visit := last_visit c\<rparr> = c \<and>
            customers s' = (customers s)[i := c'] \<and>
            (save_error en i = None \<longrightarrow>
               customer_rows s' =
                 (customer_rows s)
                   [i := (customer_rows s ! i)\<lparr>total_visits := total_visits c',
                                                last_visit := last_visit c'\<rparr>]) \<and>
            (save_error en i \<noteq> None \<longrightarrow> customer_rows s' = customer_rows s)"
proof -
  from assms(2) obtain os where os: "orders_by_status s (status od) = Some os" by blast
  show ?thesis
    using assms(3)
    by (cases "save_error en (customer_ref od)")
      (simp_all add: try_create_order_def assms(1) os Let_def track_visit_def
        save_update_fields_def)
qed

theorem visit_tracking_updates_two_fields_witness:
  "create_error sample_env (sample_order ''overdue'') = None \<and>
   orders_by_status (initial_state [sample_customer] (sconst 0))
     (status (sample_order ''overdue'')) \<noteq> None \<and>
   customer_ref (sample_order ''overdue'')
     < length (customers (initial_state [sample_customer] (sconst 0))) \<and>
   total_visits sample_customer = Some 1 \<and>
   last_visit sample_customer = Some 432000000000 \<and>
   created_at (sample_order ''overdue'') = 29700000000 \<and>
   customers (try_create_order sample_env (sample_order ''overdue'')
                (initial_state [sample_customer] (sconst 0))) =
     [sample_customer\<lparr>total_visits := Some 2, last_visit := Some 29700000000\<rparr>] \<and>
   customer_rows (try_create_order sample_env (sample_order ''overdue'')
                    (initial_state [sample_customer] (sconst 0))) =
     [sample_customer\<lparr>total_visits := Some 2, last_visit := Some 29700000000\<rparr>]"
proof -
  let ?s = "initial_state [sample_customer] (sconst 0)"
  let ?od = "sample_order ''overdue''"
  have h: "create_error sample_env ?od = None"
    "orders_by_status ?s (status ?od) \<noteq> None"
    "customer_ref ?od < length (customers ?s)"
    by (simp_all add: sample_env_def initial_state_def sample_order_fields
        sample_order_overdue_customer)
  have c: "total_visits sample_customer = Some 1"
    "last_visit sample_customer = Some 432000000000"
    by (simp_all add: sample_customer_def time_defs)
  have sv: "save_error sample_env 0 = None" by (simp add: sample_env_def)
  have st: "customers ?s = [sample_customer]" "customer_rows ?s = [sample_customer]"
    by (simp_all add: initial_state_def)
  define c' where "c' = customers (try_create_order sample_env ?od ?s) ! 0"
  from visit_tracking_updates_two_fields [OF h]
  have f: "total_visits c' = Some 2" "last_visit c' = Some 29700000000"
    "c'\<lparr>total_visits := Some 1, last_visit := Some 432000000000\<rparr> = sample_customer"
    "customers (try_create_order sample_env ?od ?s) = [c']"
    "customer_rows (try_create_order sample_env ?od ?s) =
       [sample_customer\<lparr>total_visits := total_visits c', last_visit := last_visit c'\<rparr>]"
    by (simp_all add: Let_def sample_order_overdue_customer sv st c sample_order_fields c'_def)
  from f(1,2)
  have "c' = (c'\<lparr>total_visits := Some 1, last_visit := Some 432000000000\<rparr>)
               \<lparr>total_visits := Some 2, last_visit := Some 29700000000\<rparr>"
    by (cases c') simp
  then have "c' = sample_customer\<lparr>total_visits := Some 2, last_visit := Some 29700000000\<rparr>"
    by (simp only: f(3))
  with f(1,2,4,5)
  have "customers (try_create_order sample_env ?od ?s) =
          [sample_customer\<lparr>total_visits := Some 2, last_visit := Some 29700000000\<rparr>] \<and>
        customer_rows (try_create_order sample_env ?od ?s) =
          [sample_customer\<lparr>total_visits := Some 2, last_visit := Some 29700000000\<rparr>]"
    by simp
  with h c show ?thesis by (simp add: sample_order_fields)
qed

end
